theory Spec2Isabelle
  imports Main
begin

section \<open>The inspection record store (src/sql/quality-control-schema.sql)\<close>

text \<open>
  The table \<^verbatim>\<open>QualityControlSteps\<close> in the form the schema script creates it, one row per
  entry/exit cycle. Times are integers (milliseconds); \<^verbatim>\<open>NULL\<close> is \<open>None\<close>. The columns
  that no statement of the quality-control code reads or writes (\<^verbatim>\<open>CreatedTS\<close>,
  \<^verbatim>\<open>EstimatedDurationMinutes\<close>, \<^verbatim>\<open>ProcessingLocation\<close>, \<^verbatim>\<open>BatchNumber\<close> and the computed
  \<^verbatim>\<open>ActualDurationSeconds\<close>) are left out. Column widths are not modelled: codes and
  notes are taken to fit their \<^verbatim>\<open>NVARCHAR\<close> columns. The tables \<^verbatim>\<open>Sessions\<close> and
  \<^verbatim>\<open>QrScans\<close> are created elsewhere, so the foreign keys into them are taken to hold.
  An INSERT or UPDATE that writes a row breaking a CHECK constraint of the table is
  rejected as a whole and raises.
\<close>

datatype qc_status = active | completed | aborted

record qc_step =
  ID :: int
  SessionID :: int
  QrCode :: string
  StartScanID :: "int option"
  EndScanID :: "int option"
  StartTime :: int
  EndTime :: "int option"
  Completed :: bool
  UpdatedTS :: int
  QCStatus :: qc_status
  Priority :: int
  QualityRating :: "int option"
  QualityNotes :: "string option"
  DefectsFound :: bool
  DefectDescription :: "string option"
  ReworkRequired :: bool

text \<open>The CHECK constraints of the table, one definition each. \<^verbatim>\<open>CK_QualityControlSteps_Status\<close>
  holds by the type \<^typ>\<open>qc_status\<close>.\<close>

definition CK_QualityControlSteps_Times :: "qc_step \<Rightarrow> bool" where
  "CK_QualityControlSteps_Times r =
     (case EndTime r of None \<Rightarrow> True | Some e \<Rightarrow> StartTime r \<le> e)"

definition CK_QualityControlSteps_Completed :: "qc_step \<Rightarrow> bool" where
  "CK_QualityControlSteps_Completed r =
     (if Completed r then EndTime r \<noteq> None \<and> EndScanID r \<noteq> None
      else EndTime r = None \<and> EndScanID r = None)"

definition CK_QualityControlSteps_Priority :: "qc_step \<Rightarrow> bool" where
  "CK_QualityControlSteps_Priority r = (1 \<le> Priority r \<and> Priority r \<le> 3)"

definition CK_QualityControlSteps_QualityRating :: "qc_step \<Rightarrow> bool" where
  "CK_QualityControlSteps_QualityRating r =
     (case QualityRating r of None \<Rightarrow> True | Some q \<Rightarrow> 1 \<le> q \<and> q \<le> 5)"

definition CK_QualityControlSteps_DefectLogic :: "qc_step \<Rightarrow> bool" where
  "CK_QualityControlSteps_DefectLogic r =
     (if DefectsFound r then DefectDescription r \<noteq> None else DefectDescription r = None)"

definition checks_hold :: "qc_step \<Rightarrow> bool" where
  "checks_hold r =
     (CK_QualityControlSteps_Times r \<and> CK_QualityControlSteps_Completed r \<and>
      CK_QualityControlSteps_Priority r \<and> CK_QualityControlSteps_QualityRating r \<and>
      CK_QualityControlSteps_DefectLogic r)"

text \<open>The audit table, without the JSON payload column: the step and the action type.\<close>

record qc_audit =
  QCStepID :: int
  ActionType :: string

text \<open>The database: the two tables, the last IDENTITY value of the steps table, and the
  names of the installed procedures (\<^verbatim>\<open>INFORMATION_SCHEMA.ROUTINES\<close>).\<close>

record db =
  QualityControlSteps :: "qc_step list"
  QualityControlAudit :: "qc_audit list"
  identity :: int
  ROUTINES :: "string list"

text \<open>What a rejected promise carries: the driver could not run the statement, a CHECK
  constraint rejected it, a procedure raised with \<^verbatim>\<open>RAISERROR\<close>, or the JavaScript threw.\<close>

datatype exn =
    QueryFailed
  | CheckViolation
  | RaisError string
  | JsError string

text \<open>The statements the code sends, as far as a fault of the connection can hit them.\<close>

datatype query =
    Q_getLatestQCStepForQRCode
  | Q_getActiveQCStepsForSession
  | Q_getCompletedQCStepsToday
  | Q_hasStoredProcedure
  | Q_startQCStep
  | Q_completeQCStep
  | Q_abortActiveSteps

record session_row =
  Active :: bool
  SessionTypeName :: "string option"

text \<open>The environment of one call: the clock (\<^verbatim>\<open>GETDATE()\<close>, \<^verbatim>\<open>new Date()\<close>), which
  statements the connection fails on, and \<^verbatim>\<open>dbClient.getSessionWithType\<close>, whose code is
  not part of the sources and is taken as given.\<close>

record env =
  now :: int
  fails :: "query \<Rightarrow> bool"
  getSessionWithType :: "int \<Rightarrow> exn + session_row option"

subsection \<open>Statements\<close>

text \<open>\<^verbatim>\<open>ORDER BY StartTime DESC\<close>: a stable sort, so rows of equal start time keep the
  table's order (SQL leaves their order open).\<close>

definition order_by_StartTime_desc :: "qc_step list \<Rightarrow> qc_step list" where
  "order_by_StartTime_desc rows = sort_key (\<lambda>r. - StartTime r) rows"

definition top1 :: "'a list \<Rightarrow> 'a option" where
  "top1 rows = (case rows of [] \<Rightarrow> None | r # _ \<Rightarrow> Some r)"

text \<open>The row an INSERT builds from the column defaults of the table.\<close>

definition new_step :: "int \<Rightarrow> int \<Rightarrow> string \<Rightarrow> int option \<Rightarrow> int \<Rightarrow> int \<Rightarrow> qc_step" where
  "new_step i s c scan t p =
     \<lparr>ID = i, SessionID = s, QrCode = c, StartScanID = scan, EndScanID = None,
      StartTime = t, EndTime = None, Completed = False, UpdatedTS = t,
      QCStatus = active, Priority = p, QualityRating = None, QualityNotes = None,
      DefectsFound = False, DefectDescription = None, ReworkRequired = False\<rparr>"

text \<open>\<^verbatim>\<open>sp_StartQCStep\<close> (schema lines 330-384): refuses when an active step for the session
  and code exists, else inserts the step and its audit row and returns the step.\<close>

definition sp_StartQCStep ::
  "env \<Rightarrow> db \<Rightarrow> int \<Rightarrow> string \<Rightarrow> int option \<Rightarrow> int \<Rightarrow> exn + (qc_step list \<times> db)" where
  "sp_StartQCStep e d s c scan p =
     (if list_ex (\<lambda>r. SessionID r = s \<and> QrCode r = c \<and> QCStatus r = active)
           (QualityControlSteps d)
      then Inl (RaisError ''QC-Schritt fuer diesen QR-Code ist bereits aktiv in dieser Session'')
      else let r = new_step (identity d + 1) s c scan (now e) p in
        if \<not> checks_hold r then Inl CheckViolation
        else Inr ([r],
          d\<lparr>QualityControlSteps := QualityControlSteps d @ [r],
            QualityControlAudit :=
              QualityControlAudit d @ [\<lparr>QCStepID = ID r, ActionType = ''created''\<rparr>],
            identity := identity d + 1\<rparr>))"

text \<open>\<^verbatim>\<open>QualityControlQueries.startQCStep\<close> (queries lines 202-224): the direct INSERT with
  \<^verbatim>\<open>OUTPUT INSERTED.*\<close>; status and priority take the column defaults.\<close>

definition queries_startQCStep ::
  "env \<Rightarrow> db \<Rightarrow> int \<Rightarrow> string \<Rightarrow> int option \<Rightarrow> exn + (qc_step option \<times> db)" where
  "queries_startQCStep e d s c scan =
     (if fails e Q_startQCStep then Inl QueryFailed
      else let r = new_step (identity d + 1) s c scan (now e) 1 in
        if \<not> checks_hold r then Inl CheckViolation
        else Inr (top1 [r],
          d\<lparr>QualityControlSteps := QualityControlSteps d @ [r],
            identity := identity d + 1\<rparr>))"

text \<open>\<^verbatim>\<open>sp_CompleteQCStep\<close> (schema lines 391-459): the newest active step of the session
  and code is completed; none raises.\<close>

definition sp_CompleteQCStep ::
  "env \<Rightarrow> db \<Rightarrow> int \<Rightarrow> string \<Rightarrow> int option \<Rightarrow> int option \<Rightarrow> bool \<Rightarrow> string option \<Rightarrow>
     string option \<Rightarrow> exn + (qc_step list \<times> db)" where
  "sp_CompleteQCStep e d s c scan rating defects descr notes =
     (case top1 (order_by_StartTime_desc
             (filter (\<lambda>r. SessionID r = s \<and> QrCode r = c \<and> QCStatus r = active)
                (QualityControlSteps d))) of
        None \<Rightarrow> Inl (RaisError
          ''Kein aktiver QC-Schritt fuer diesen QR-Code in dieser Session gefunden'')
      | Some found \<Rightarrow>
          let upd = (\<lambda>r. if ID r = ID found
                 then r\<lparr>EndScanID := scan, EndTime := Some (now e), Completed := True,
                        QCStatus := completed, QualityRating := rating,
                        DefectsFound := defects, DefectDescription := descr,
                        QualityNotes := notes, ReworkRequired := defects,
                        UpdatedTS := now e\<rparr>
                 else r);
              rows = map upd (QualityControlSteps d)
          in if \<not> list_all checks_hold (filter (\<lambda>r. ID r = ID found) rows)
             then Inl CheckViolation
             else Inr (filter (\<lambda>r. ID r = ID found) rows,
               d\<lparr>QualityControlSteps := rows,
                 QualityControlAudit :=
                   QualityControlAudit d @ [\<lparr>QCStepID = ID found, ActionType = ''completed''\<rparr>]\<rparr>))"

text \<open>\<^verbatim>\<open>QualityControlQueries.completeQCStep\<close> (queries lines 233-276): the newest step of
  the session and code with \<^verbatim>\<open>Completed = 0\<close> is updated; none returns null.\<close>

definition queries_completeQCStep ::
  "env \<Rightarrow> db \<Rightarrow> int \<Rightarrow> string \<Rightarrow> int option \<Rightarrow> exn + (qc_step option \<times> db)" where
  "queries_completeQCStep e d s c scan =
     (if fails e Q_completeQCStep then Inl QueryFailed
      else case top1 (order_by_StartTime_desc
             (filter (\<lambda>r. SessionID r = s \<and> QrCode r = c \<and> \<not> Completed r)
                (QualityControlSteps d))) of
        None \<Rightarrow> Inr (None, d)
      | Some found \<Rightarrow>
          let upd = (\<lambda>r. if ID r = ID found
                 then r\<lparr>EndScanID := scan, EndTime := Some (now e), Completed := True,
                        UpdatedTS := now e\<rparr>
                 else r);
              rows = map upd (QualityControlSteps d)
          in if \<not> list_all checks_hold (filter (\<lambda>r. ID r = ID found) rows)
             then Inl CheckViolation
             else Inr (top1 (filter (\<lambda>r. ID r = ID found) rows),
               d\<lparr>QualityControlSteps := rows\<rparr>))"

text \<open>\<^verbatim>\<open>COALESCE(QualityNotes + ' | ', '') + @AbortReason\<close>.\<close>

definition append_note :: "string option \<Rightarrow> string \<Rightarrow> string" where
  "append_note notes reason = (case notes of None \<Rightarrow> [] | Some n \<Rightarrow> n @ '' | '') @ reason"

text \<open>\<^verbatim>\<open>sp_AbortActiveQCSteps\<close> (schema lines 467-505): one UPDATE over the active steps
  of the session, then the audit rows, then the row count. \<open>abort_update\<close> is the SET
  clause; the statement is rejected when a row it writes breaks a CHECK constraint.\<close>

definition abort_update :: "int \<Rightarrow> string \<Rightarrow> qc_step \<Rightarrow> qc_step" where
  "abort_update t reason r =
     r\<lparr>QCStatus := aborted, EndTime := Some t,
       QualityNotes := Some (append_note (QualityNotes r) reason), UpdatedTS := t\<rparr>"

definition sp_AbortActiveQCSteps ::
  "env \<Rightarrow> db \<Rightarrow> int \<Rightarrow> string \<Rightarrow> exn + (int \<times> db)" where
  "sp_AbortActiveQCSteps e d s reason =
     (let hit = (\<lambda>r. SessionID r = s \<and> QCStatus r = active);
          rows = map (\<lambda>r. if hit r then abort_update (now e) reason r else r)
                   (QualityControlSteps d);
          written = map (abort_update (now e) reason) (filter hit (QualityControlSteps d));
          AbortedCount = int (length written)
      in if \<not> list_all checks_hold written then Inl CheckViolation
         else Inr (AbortedCount,
           d\<lparr>QualityControlSteps := rows,
             QualityControlAudit := QualityControlAudit d @
               (if AbortedCount > 0
                then map (\<lambda>r. \<lparr>QCStepID = ID r, ActionType = ''aborted''\<rparr>)
                       (filter (\<lambda>r. SessionID r = s \<and> QCStatus r = aborted \<and>
                                   now e - 5000 \<le> UpdatedTS r) rows)
                else [])\<rparr>))"

text \<open>\<^verbatim>\<open>QualityControlQueries.abortActiveStepsForSession\<close> (queries lines 283-305): one
  UPDATE over the steps of the session with \<^verbatim>\<open>Completed = 0\<close>; it takes no reason.\<close>

definition queries_abort_update :: "int \<Rightarrow> qc_step \<Rightarrow> qc_step" where
  "queries_abort_update t r = r\<lparr>EndTime := Some t, Completed := True, UpdatedTS := t\<rparr>"

definition queries_abortActiveStepsForSession ::
  "env \<Rightarrow> db \<Rightarrow> int \<Rightarrow> exn + (int \<times> db)" where
  "queries_abortActiveStepsForSession e d s =
     (if fails e Q_abortActiveSteps then Inl QueryFailed
      else let hit = (\<lambda>r. SessionID r = s \<and> \<not> Completed r);
          rows = map (\<lambda>r. if hit r then queries_abort_update (now e) r else r)
                   (QualityControlSteps d);
          written = map (queries_abort_update (now e)) (filter hit (QualityControlSteps d))
      in if \<not> list_all checks_hold written then Inl CheckViolation
         else Inr (int (length written), d\<lparr>QualityControlSteps := rows\<rparr>))"

subsection \<open>Read-only queries (src/db/quality-control-queries.js)\<close>

text \<open>Each of these catches a failed statement itself and answers with the empty result.\<close>

definition queries_getActiveQCStepsForSession :: "env \<Rightarrow> db \<Rightarrow> int \<Rightarrow> qc_step list" where
  "queries_getActiveQCStepsForSession e d s =
     (if fails e Q_getActiveQCStepsForSession then []
      else order_by_StartTime_desc
             (filter (\<lambda>r. SessionID r = s \<and> \<not> Completed r) (QualityControlSteps d)))"

text \<open>\<^verbatim>\<open>CAST(... AS DATE)\<close>: the day a time falls on.\<close>

definition date_of :: "int \<Rightarrow> int" where
  "date_of t = t div 86400000"

text \<open>\<^verbatim>\<open>ORDER BY EndTime DESC\<close>, NULL last.\<close>

definition order_by_EndTime_desc :: "qc_step list \<Rightarrow> qc_step list" where
  "order_by_EndTime_desc rows =
     sort_key (\<lambda>r. - the (EndTime r)) (filter (\<lambda>r. EndTime r \<noteq> None) rows) @
     filter (\<lambda>r. EndTime r = None) rows"

definition getCompletedQCStepsToday :: "env \<Rightarrow> db \<Rightarrow> int \<Rightarrow> qc_step list" where
  "getCompletedQCStepsToday e d s =
     (if fails e Q_getCompletedQCStepsToday then []
      else order_by_EndTime_desc
             (filter (\<lambda>r. SessionID r = s \<and> Completed r \<and>
                          date_of (StartTime r) = date_of (now e))
                (QualityControlSteps d)))"

definition getLatestQCStepForQRCode :: "env \<Rightarrow> db \<Rightarrow> int \<Rightarrow> string \<Rightarrow> qc_step option" where
  "getLatestQCStepForQRCode e d s c =
     (if fails e Q_getLatestQCStepForQRCode then None
      else top1 (order_by_StartTime_desc
             (filter (\<lambda>r. SessionID r = s \<and> QrCode r = c) (QualityControlSteps d))))"

section \<open>The inspection state machine (src/logic/quality-control-logic.js)\<close>

text \<open>\<^verbatim>\<open>parseInt(process.env.X) || d\<close>: an unset or unreadable variable is \<open>None\<close> (NaN),
  and \<open>0\<close> is falsy as well.\<close>

definition or_default :: "int option \<Rightarrow> int \<Rightarrow> int" where
  "or_default v d = (case v of None \<Rightarrow> d | Some n \<Rightarrow> if n = 0 then d else n)"

record config =
  maxParallelStepsPerSession :: int
  stepTimeoutMinutes :: int
  defaultPriority :: int

definition config_of_env :: "int option \<Rightarrow> int option \<Rightarrow> int option \<Rightarrow> config" where
  "config_of_env QC_MAX_PARALLEL_STEPS_PER_SESSION QC_STEP_TIMEOUT_MINUTES QC_DEFAULT_PRIORITY =
     \<lparr>maxParallelStepsPerSession = or_default QC_MAX_PARALLEL_STEPS_PER_SESSION 10,
      stepTimeoutMinutes = or_default QC_STEP_TIMEOUT_MINUTES 120,
      defaultPriority = or_default QC_DEFAULT_PRIORITY 1\<rparr>"

definition default_config :: config where
  "default_config = config_of_env None None None"

datatype outcome_type =
    entrance_started | exit_completed | already_completed | limit_exceeded
  | qr_mismatch | entrance_error | exit_error | error

datatype scan_type = entrance | exit | unknown

text \<open>The result object, without its message text.\<close>

record outcome =
  success :: bool
  otype :: outcome_type
  qcStep :: "qc_step option"
  scanType :: scan_type
  durationSeconds :: "int option"

record scan_state =
  expectedScan :: scan_type
  currentQRCode :: "string option"
  lastScanTime :: int

text \<open>The two in-memory maps of a \<^verbatim>\<open>QualityControlLogic\<close> object.\<close>

record logic =
  activeStepsCache :: "int \<Rightarrow> int set option"
  scanStateCache :: "int \<Rightarrow> scan_state option"

definition new_logic :: logic where
  "new_logic = \<lparr>activeStepsCache = (\<lambda>_. None), scanStateCache = (\<lambda>_. None)\<rparr>"

definition hasStoredProcedure :: "env \<Rightarrow> db \<Rightarrow> string \<Rightarrow> bool" where
  "hasStoredProcedure e d procedureName =
     (if fails e Q_hasStoredProcedure then False else procedureName \<in> set (ROUTINES d))"

text \<open>\<^verbatim>\<open>startQCStep\<close> (logic lines 239-259). Every caller in the sources leaves
  \<^verbatim>\<open>options\<close> empty, so the priority is the configured default.\<close>

definition startQCStep ::
  "env \<Rightarrow> config \<Rightarrow> db \<Rightarrow> int \<Rightarrow> string \<Rightarrow> int option \<Rightarrow> exn + (qc_step option \<times> db)" where
  "startQCStep e cfg d sessionId qrCode startScanId =
     (if hasStoredProcedure e d ''sp_StartQCStep''
      then if fails e Q_startQCStep then Inl QueryFailed
        else (case sp_StartQCStep e d sessionId qrCode startScanId (defaultPriority cfg) of
            Inl x \<Rightarrow> Inl x
          | Inr (recordset, d') \<Rightarrow> Inr (top1 recordset, d'))
      else queries_startQCStep e d sessionId qrCode startScanId)"

text \<open>\<^verbatim>\<open>completeQCStep\<close> (logic lines 269-302), with the empty \<^verbatim>\<open>qualityData\<close> of its
  callers: no rating, no defects, no description, no notes.\<close>

definition completeQCStep ::
  "env \<Rightarrow> db \<Rightarrow> int \<Rightarrow> string \<Rightarrow> int option \<Rightarrow> exn + (qc_step option \<times> db)" where
  "completeQCStep e d sessionId qrCode endScanId =
     (if hasStoredProcedure e d ''sp_CompleteQCStep''
      then if fails e Q_completeQCStep then Inl QueryFailed
        else (case sp_CompleteQCStep e d sessionId qrCode endScanId None False None None of
            Inl x \<Rightarrow> Inl x
          | Inr (recordset, d') \<Rightarrow> Inr (top1 recordset, d'))
      else queries_completeQCStep e d sessionId qrCode endScanId)"

definition clearSessionFromCache :: "logic \<Rightarrow> int \<Rightarrow> logic" where
  "clearSessionFromCache lg sessionId =
     lg\<lparr>activeStepsCache := (activeStepsCache lg)(sessionId := None),
        scanStateCache := (scanStateCache lg)(sessionId := None)\<rparr>"

text \<open>\<^verbatim>\<open>abortActiveStepsForSession\<close> (logic lines 310-338): the procedure when it is
  installed, else the query class, to which the reason is not passed. An error is thrown
  on to the caller and leaves the cache as it was.\<close>

definition abortActiveStepsForSession ::
  "env \<Rightarrow> db \<Rightarrow> logic \<Rightarrow> int \<Rightarrow> string \<Rightarrow> (exn + int) \<times> logic \<times> db" where
  "abortActiveStepsForSession e d lg sessionId reason =
     (case (if hasStoredProcedure e d ''sp_AbortActiveQCSteps''
            then if fails e Q_abortActiveSteps then Inl QueryFailed
              else sp_AbortActiveQCSteps e d sessionId reason
            else queries_abortActiveStepsForSession e d sessionId) of
        Inl x \<Rightarrow> (Inl x, lg, d)
      | Inr (abortedCount, d') \<Rightarrow> (Inr abortedCount, clearSessionFromCache lg sessionId, d'))"

text \<open>\<^verbatim>\<open>validateSession\<close> (logic lines 444-483): found and active.\<close>

definition validateSession :: "env \<Rightarrow> int \<Rightarrow> bool" where
  "validateSession e sessionId =
     (case getSessionWithType e sessionId of
        Inl x \<Rightarrow> False
      | Inr None \<Rightarrow> False
      | Inr (Some session) \<Rightarrow> Active session)"

text \<open>\<^verbatim>\<open>getActiveQCStepsForSession\<close> of the logic class (lines 386-393) wraps the query in
  a second catch that answers with the empty list.\<close>

definition getActiveQCStepsForSession :: "env \<Rightarrow> db \<Rightarrow> int \<Rightarrow> qc_step list" where
  "getActiveQCStepsForSession e d sessionId = queries_getActiveQCStepsForSession e d sessionId"

text \<open>\<^verbatim>\<open>getActiveStepsCount\<close> (logic lines 607-628): the size of the cached set when the
  session has one, else the number of rows read, which is then cached.\<close>

definition getActiveStepsCount :: "env \<Rightarrow> db \<Rightarrow> logic \<Rightarrow> int \<Rightarrow> int \<times> logic" where
  "getActiveStepsCount e d lg sessionId =
     (case activeStepsCache lg sessionId of
        Some stepsSet \<Rightarrow> (int (card stepsSet), lg)
      | None \<Rightarrow>
          let activeSteps = getActiveQCStepsForSession e d sessionId
          in (int (length activeSteps),
              lg\<lparr>activeStepsCache :=
                   (activeStepsCache lg)(sessionId := Some (set (map ID activeSteps)))\<rparr>))"

text \<open>\<^verbatim>\<open>updateActiveStepsCache\<close> (logic lines 537-554) makes an empty set for a session
  that has none before it adds or removes.\<close>

definition updateActiveStepsCache :: "logic \<Rightarrow> int \<Rightarrow> int \<Rightarrow> bool \<Rightarrow> logic" where
  "updateActiveStepsCache lg sessionId stepId add =
     (let stepsSet = (case activeStepsCache lg sessionId of None \<Rightarrow> {} | Some S \<Rightarrow> S)
      in lg\<lparr>activeStepsCache := (activeStepsCache lg)(sessionId :=
              Some (if add then insert stepId stepsSet else stepsSet - {stepId}))\<rparr>)"

definition updateScanStateCache :: "logic \<Rightarrow> int \<Rightarrow> scan_state \<Rightarrow> logic" where
  "updateScanStateCache lg sessionId scanState =
     lg\<lparr>scanStateCache := (scanStateCache lg)(sessionId := Some scanState)\<rparr>"

definition calculateStepDurationSeconds :: "env \<Rightarrow> int \<Rightarrow> int option \<Rightarrow> int" where
  "calculateStepDurationSeconds e startTime endTime =
     ((case endTime of None \<Rightarrow> now e | Some t \<Rightarrow> t) - startTime) div 1000"

definition failure :: "outcome_type \<Rightarrow> qc_step option \<Rightarrow> scan_type \<Rightarrow> outcome" where
  "failure t step st =
     \<lparr>success = False, otype = t, qcStep = step, scanType = st, durationSeconds = None\<rparr>"

text \<open>\<^verbatim>\<open>processEntranceScan\<close> (logic lines 92-157). \<open>processEntranceScan_try\<close> is the
  \<^verbatim>\<open>try\<close> block, \<open>Inl\<close> what it throws; the cache written before a throw stays written.\<close>

definition processEntranceScan_try ::
  "env \<Rightarrow> config \<Rightarrow> db \<Rightarrow> logic \<Rightarrow> int \<Rightarrow> string \<Rightarrow> int option \<Rightarrow>
     (exn + outcome) \<times> logic \<times> db" where
  "processEntranceScan_try e cfg d lg sessionId qrCode scanId =
     (case getActiveStepsCount e d lg sessionId of (activeStepsCount, lg1) \<Rightarrow>
        if activeStepsCount \<ge> maxParallelStepsPerSession cfg
        then (Inr (failure limit_exceeded None entrance), lg1, d)
        else if list_ex (\<lambda>step. QrCode step = qrCode) (getCompletedQCStepsToday e d sessionId)
        then (Inr (failure already_completed None entrance), lg1, d)
        else (case startQCStep e cfg d sessionId qrCode scanId of
            Inl x \<Rightarrow> (Inl x, lg1, d)
          | Inr (None, d') \<Rightarrow>
              (Inl (JsError ''QC-Schritt konnte nicht gestartet werden''), lg1, d')
          | Inr (Some step, d') \<Rightarrow>
              (Inr \<lparr>success = True, otype = entrance_started, qcStep = Some step,
                    scanType = entrance, durationSeconds = None\<rparr>,
               updateScanStateCache (updateActiveStepsCache lg1 sessionId (ID step) True)
                 sessionId
                 \<lparr>expectedScan = exit, currentQRCode = Some qrCode, lastScanTime = now e\<rparr>,
               d')))"

definition processEntranceScan ::
  "env \<Rightarrow> config \<Rightarrow> db \<Rightarrow> logic \<Rightarrow> int \<Rightarrow> string \<Rightarrow> int option \<Rightarrow>
     (exn + outcome) \<times> logic \<times> db" where
  "processEntranceScan e cfg d lg sessionId qrCode scanId =
     (case processEntranceScan_try e cfg d lg sessionId qrCode scanId of
        (Inl x, lg', d') \<Rightarrow> (Inr (failure entrance_error None entrance), lg', d')
      | (Inr out, lg', d') \<Rightarrow> (Inr out, lg', d'))"

text \<open>\<^verbatim>\<open>processExitScan\<close> (logic lines 167-227). The timeout test only writes a log line.\<close>

definition processExitScan_try ::
  "env \<Rightarrow> db \<Rightarrow> logic \<Rightarrow> int \<Rightarrow> string \<Rightarrow> int option \<Rightarrow> qc_step \<Rightarrow>
     (exn + outcome) \<times> logic \<times> db" where
  "processExitScan_try e d lg sessionId qrCode scanId existingStep =
     (if QrCode existingStep \<noteq> qrCode
      then (Inr (failure qr_mismatch (Some existingStep) exit), lg, d)
      else (case completeQCStep e d sessionId qrCode scanId of
          Inl x \<Rightarrow> (Inl x, lg, d)
        | Inr (None, d') \<Rightarrow>
            (Inl (JsError ''QC-Schritt konnte nicht abgeschlossen werden''), lg, d')
        | Inr (Some step, d') \<Rightarrow>
            (Inr \<lparr>success = True, otype = exit_completed, qcStep = Some step,
                  scanType = exit,
                  durationSeconds =
                    Some (calculateStepDurationSeconds e (StartTime step) (EndTime step))\<rparr>,
             updateScanStateCache (updateActiveStepsCache lg sessionId (ID step) False)
               sessionId
               \<lparr>expectedScan = entrance, currentQRCode = None, lastScanTime = now e\<rparr>,
             d')))"

definition processExitScan ::
  "env \<Rightarrow> db \<Rightarrow> logic \<Rightarrow> int \<Rightarrow> string \<Rightarrow> int option \<Rightarrow> qc_step \<Rightarrow>
     (exn + outcome) \<times> logic \<times> db" where
  "processExitScan e d lg sessionId qrCode scanId existingStep =
     (case processExitScan_try e d lg sessionId qrCode scanId existingStep of
        (Inl x, lg', d') \<Rightarrow> (Inr (failure exit_error (Some existingStep) exit), lg', d')
      | (Inr out, lg', d') \<Rightarrow> (Inr out, lg', d'))"

text \<open>\<^verbatim>\<open>processQRScan\<close> (logic lines 52-83).\<close>

definition processQRScan_try ::
  "env \<Rightarrow> config \<Rightarrow> db \<Rightarrow> logic \<Rightarrow> int \<Rightarrow> string \<Rightarrow> int option \<Rightarrow>
     (exn + outcome) \<times> logic \<times> db" where
  "processQRScan_try e cfg d lg sessionId qrCode scanId =
     (if \<not> validateSession e sessionId then (Inl (JsError ''Ungueltige Session''), lg, d)
      else (case getLatestQCStepForQRCode e d sessionId qrCode of
          None \<Rightarrow> processEntranceScan e cfg d lg sessionId qrCode scanId
        | Some existingStep \<Rightarrow>
            if \<not> Completed existingStep
            then processExitScan e d lg sessionId qrCode scanId existingStep
            else processEntranceScan e cfg d lg sessionId qrCode scanId))"

definition processQRScan ::
  "env \<Rightarrow> config \<Rightarrow> db \<Rightarrow> logic \<Rightarrow> int \<Rightarrow> string \<Rightarrow> int option \<Rightarrow>
     (exn + outcome) \<times> logic \<times> db" where
  "processQRScan e cfg d lg sessionId qrCode scanId =
     (case processQRScan_try e cfg d lg sessionId qrCode scanId of
        (Inl x, lg', d') \<Rightarrow> (Inr (failure error None unknown), lg', d')
      | (Inr out, lg', d') \<Rightarrow> (Inr out, lg', d'))"

subsection \<open>Code validation (logic lines 490-527)\<close>

text \<open>A \<^typ>\<open>char\<close> stands for a UTF-16 code unit below 256. White space (\<^verbatim>\<open>trim\<close>, \<^verbatim>\<open>\s\<close>)
  there: tab, line feed, vertical tab, form feed, carriage return, space, no-break space.\<close>

definition is_space :: "char \<Rightarrow> bool" where
  "is_space c = ((of_char c :: nat) \<in> {9, 10, 11, 12, 13, 32, 160})"

definition trim :: "string \<Rightarrow> string" where
  "trim s = rev (dropWhile is_space (rev (dropWhile is_space s)))"

text \<open>The class \<^verbatim>\<open>[a-zA-Z0-9\-_^:;.,\s]\<close>.\<close>

definition allowed_char :: "char \<Rightarrow> bool" where
  "allowed_char c =
     (let n = (of_char c :: nat) in
        (97 \<le> n \<and> n \<le> 122) \<or> (65 \<le> n \<and> n \<le> 90) \<or> (48 \<le> n \<and> n \<le> 57) \<or>
        c \<in> set ''-_^:;.,'' \<or> is_space c)"

record validation =
  isValid :: bool
  normalizedCode :: "string option"

definition validateQRCode :: "string \<Rightarrow> validation" where
  "validateQRCode qrCode =
     (if qrCode = [] then \<lparr>isValid = False, normalizedCode = None\<rparr>
      else let trimmedCode = trim qrCode in
        if length trimmedCode < 5 then \<lparr>isValid = False, normalizedCode = None\<rparr>
        else if length trimmedCode > 500 then \<lparr>isValid = False, normalizedCode = None\<rparr>
        else if \<not> (trimmedCode \<noteq> [] \<and> list_all allowed_char trimmedCode)
        then \<lparr>isValid = False, normalizedCode = None\<rparr>
        else \<lparr>isValid = True, normalizedCode = Some trimmedCode\<rparr>)"

section \<open>The rate limiter of the main process (src/unnamed/part_000)\<close>









text \<open>The handler of \<^verbatim>\<open>session-restart\<close> (lines 562-602), as far as the inspection
  steps go: the active steps are aborted first, with the default reason; an error of the
  abort is caught and the handler answers \<^verbatim>\<open>false\<close>. The \<^verbatim>\<open>Sessions\<close> row it then
  restamps is outside this database.\<close>

definition session_restart :: "bool \<Rightarrow> env \<Rightarrow> db \<Rightarrow> logic \<Rightarrow> int \<Rightarrow> bool \<times> logic \<times> db" where
  "session_restart online e d lg sessionId =
     (if \<not> online then (False, lg, d)
      else case abortActiveStepsForSession e d lg sessionId ''Session beendet'' of
          (Inl x, lg', d') \<Rightarrow> (False, lg', d')
        | (Inr abortedCount, lg', d') \<Rightarrow> (True, lg', d'))"

section \<open>The duplicate suppressor of the renderer (src/renderer/app.js)\<close>

text \<open>The fields of \<^verbatim>\<open>QualityControlApp\<close> that \<^verbatim>\<open>handleQRCodeDetected\<close> reads and writes;
  of the selected session only its id.\<close>

record app =
  selectedSession :: "int option"
  scanCooldown :: int
  recentlyScanned :: "string \<Rightarrow> int option"
  pendingScans :: "string set"
  lastProcessedQR :: "string option"
  lastProcessedTime :: int

definition new_app :: app where
  "new_app = \<lparr>selectedSession = None, scanCooldown = 3000, recentlyScanned = (\<lambda>_. None),
     pendingScans = {}, lastProcessedQR = None, lastProcessedTime = 0\<rparr>"

datatype verdict = no_session | immediate_repeat | cooldown | in_flight | accepted

text \<open>\<^verbatim>\<open>handleQRCodeDetected\<close> (lines 946-1012) up to its \<^verbatim>\<open>await\<close>, at clock reading \<open>t\<close>:
  the three tests in the order of the source, then the bookkeeping of an accepted scan.
  \<^verbatim>\<open>recentScanTime && ...\<close> is false for a missing entry and for the time \<open>0\<close>. Only the
  verdict \<open>accepted\<close> goes on to \<^verbatim>\<open>qr.saveScan\<close>.\<close>

definition handleQRCodeDetected :: "int \<Rightarrow> app \<Rightarrow> string \<Rightarrow> verdict \<times> app" where
  "handleQRCodeDetected t a qrData =
     (if selectedSession a = None then (no_session, a)
      else if lastProcessedQR a = Some qrData \<and> t - lastProcessedTime a < 2000
      then (immediate_repeat, a)
      else if (case recentlyScanned a qrData of
                 None \<Rightarrow> False
               | Some recentScanTime \<Rightarrow>
                   recentScanTime \<noteq> 0 \<and> t - recentScanTime < scanCooldown a)
      then (cooldown, a)
      else if qrData \<in> pendingScans a then (in_flight, a)
      else (accepted,
            a\<lparr>lastProcessedQR := Some qrData, lastProcessedTime := t,
              pendingScans := insert qrData (pendingScans a),
              recentlyScanned := (recentlyScanned a)(qrData := Some t)\<rparr>))"

text \<open>The \<^verbatim>\<open>finally\<close> block of an accepted scan.\<close>

definition scan_settled :: "app \<Rightarrow> string \<Rightarrow> app" where
  "scan_settled a qrData = a\<lparr>pendingScans := pendingScans a - {qrData}\<rparr>"

text \<open>\<^verbatim>\<open>cleanupOldScans\<close> (lines 1163-1173), run every 30 seconds.\<close>

definition cleanupOldScans :: "int \<Rightarrow> app \<Rightarrow> app" where
  "cleanupOldScans t a =
     a\<lparr>recentlyScanned := (\<lambda>qrData. case recentlyScanned a qrData of
           None \<Rightarrow> None
         | Some timestamp \<Rightarrow> if t - timestamp > 60 * 1000 then None else Some timestamp)\<rparr>"

text \<open>What can happen to the renderer between two scans: another detection, the end of
  a pending scan, a change of the selected session, a cleanup.\<close>

datatype app_event =
    Detected int string
  | Settled string
  | Selected "int option"
  | Cleanup int

fun app_step :: "app \<Rightarrow> app_event \<Rightarrow> app" where
  "app_step a (Detected t qrData) = snd (handleQRCodeDetected t a qrData)"
| "app_step a (Settled qrData) = scan_settled a qrData"
| "app_step a (Selected s) = a\<lparr>selectedSession := s\<rparr>"
| "app_step a (Cleanup t) = cleanupOldScans t a"

fun event_time_in :: "int \<Rightarrow> int \<Rightarrow> app_event \<Rightarrow> bool" where
  "event_time_in lo hi (Detected t qrData) = (lo \<le> t \<and> t \<le> hi)"
| "event_time_in lo hi (Cleanup t) = (lo \<le> t \<and> t \<le> hi)"
| "event_time_in lo hi (Settled qrData) = True"
| "event_time_in lo hi (Selected s) = True"

section \<open>Example inputs\<close>

text \<open>A connection without faults at clock reading \<open>t\<close>, in which session 1 is the one
  active session.\<close>

definition env_at :: "int \<Rightarrow> env" where
  "env_at t =
     \<lparr>now = t, fails = (\<lambda>_. False),
      getSessionWithType =
        (\<lambda>s. if s = 1 then Inr (Some \<lparr>Active = True, SessionTypeName = None\<rparr>) else Inr None)\<rparr>"

definition procedures :: "string list" where
  "procedures = [''sp_StartQCStep'', ''sp_CompleteQCStep'', ''sp_AbortActiveQCSteps'']"

text \<open>A table with one step, started at time 1000 by scan 7 for the code \<^verbatim>\<open>X1-0001\<close> in
  session 1 and still active; \<open>routines\<close> are the installed procedures.\<close>

definition db_one_active :: "string list \<Rightarrow> db" where
  "db_one_active routines =
     \<lparr>QualityControlSteps = [new_step 1 1 ''X1-0001'' (Some 7) 1000 1],
      QualityControlAudit = [], identity = 1, ROUTINES = routines\<rparr>"

definition db_empty :: "string list \<Rightarrow> db" where
  "db_empty routines =
     \<lparr>QualityControlSteps = [], QualityControlAudit = [], identity = 0, ROUTINES = routines\<rparr>"

text \<open>The same connection, failing on the one statement \<open>q\<close>.\<close>

definition env_failing :: "int \<Rightarrow> query \<Rightarrow> env" where
  "env_failing t q = (env_at t)\<lparr>fails := (\<lambda>x. x = q)\<rparr>"

text \<open>Ten active steps of session 1, for ten codes.\<close>

definition db_ten_active :: "string list \<Rightarrow> db" where
  "db_ten_active routines =
     \<lparr>QualityControlSteps =
        map (\<lambda>(i, c). new_step i 1 c (Some i) 1000 1)
          [(1, ''CODE-01''), (2, ''CODE-02''), (3, ''CODE-03''), (4, ''CODE-04''),
           (5, ''CODE-05''), (6, ''CODE-06''), (7, ''CODE-07''), (8, ''CODE-08''),
           (9, ''CODE-09''), (10, ''CODE-10'')],
      QualityControlAudit = [], identity = 10, ROUTINES = routines\<rparr>"

text \<open>A table with the given rows.\<close>

definition db_of_rows :: "qc_step list \<Rightarrow> string list \<Rightarrow> db" where
  "db_of_rows rows routines =
     \<lparr>QualityControlSteps = rows, QualityControlAudit = [], identity = int (length rows),
      ROUTINES = routines\<rparr>"




text \<open>The renderer with session 1 selected, the events between the two scans of the code
  \<^verbatim>\<open>ABC123\<close> at times 1000 and 1500, and the renderer after the first of them.\<close>

definition app_selected :: app where
  "app_selected = new_app\<lparr>selectedSession := Some 1\<rparr>"

definition events_between :: "app_event list" where
  "events_between =
     [Detected 1200 ''OTHER-1'', Settled ''ABC123'', Selected (Some 2), Cleanup 1300]"

definition app_after_first :: app where
  "app_after_first = snd (handleQRCodeDetected 1000 app_selected ''ABC123'')"

section \<open>Notions of the specification\<close>

text \<open>The steps of a session that are not marked completed: what the query class and
  the state machine count as its active steps.\<close>

definition steps_not_completed :: "db \<Rightarrow> int \<Rightarrow> qc_step list" where
  "steps_not_completed d s =
     filter (\<lambda>r. SessionID r = s \<and> \<not> Completed r) (QualityControlSteps d)"

text \<open>The status column and the completion flag of a step agree on whether it is active.
  The three procedures keep all steps so.\<close>

definition status_matches_flag :: "qc_step \<Rightarrow> bool" where
  "status_matches_flag r = ((QCStatus r = active) = (\<not> Completed r))"




text \<open>The renderer holds an acceptance time for the code that lies between \<open>t1\<close> and
  \<open>t2\<close>, and its cooldown is \<open>cd\<close>.\<close>

definition marked :: "app \<Rightarrow> string \<Rightarrow> int \<Rightarrow> int \<Rightarrow> int \<Rightarrow> bool" where
  "marked a qrData cd t1 t2 =
     (scanCooldown a = cd \<and>
      (case recentlyScanned a qrData of None \<Rightarrow> False | Some ts \<Rightarrow> t1 \<le> ts \<and> ts \<le> t2))"

text \<open>The steps of a session and code whose status is active.\<close>

definition active_steps_for :: "db \<Rightarrow> int \<Rightarrow> string \<Rightarrow> qc_step list" where
  "active_steps_for d s c =
     filter (\<lambda>r. SessionID r = s \<and> QrCode r = c \<and> QCStatus r = active) (QualityControlSteps d)"

section \<open>Properties\<close>

subsection \<open>Auxiliary facts\<close>

lemmas ck_defs = checks_hold_def CK_QualityControlSteps_Times_def
  CK_QualityControlSteps_Completed_def CK_QualityControlSteps_Priority_def
  CK_QualityControlSteps_QualityRating_def CK_QualityControlSteps_DefectLogic_def

lemma new_step_checks_hold: "checks_hold (new_step i s c scan t p) = (1 \<le> p \<and> p \<le> 3)"
  by (simp add: ck_defs new_step_def)


lemma length_order_by_StartTime_desc [simp]:
  "length (order_by_StartTime_desc rows) = length rows"
  by (simp add: order_by_StartTime_desc_def)

lemma top1_None [simp]: "(top1 rows = None) = (rows = [])"
  by (cases rows) (simp_all add: top1_def)






















lemmas run_defs = processQRScan_def processQRScan_try_def validateSession_def env_at_def
  env_failing_def default_config_def config_of_env_def or_default_def new_logic_def
  procedures_def getLatestQCStepForQRCode_def order_by_StartTime_desc_def top1_def new_step_def
  processExitScan_def processExitScan_try_def completeQCStep_def hasStoredProcedure_def
  sp_CompleteQCStep_def queries_completeQCStep_def ck_defs Let_def updateScanStateCache_def
  updateActiveStepsCache_def calculateStepDurationSeconds_def processEntranceScan_def
  processEntranceScan_try_def getActiveStepsCount_def getActiveQCStepsForSession_def
  queries_getActiveQCStepsForSession_def getCompletedQCStepsToday_def
  order_by_EndTime_desc_def date_of_def startQCStep_def sp_StartQCStep_def
  queries_startQCStep_def failure_def

lemma sp_StartQCStep_keeps_one_active:
  assumes "sp_StartQCStep e d s c scan p = Inr (rs, d')"
    and "length (active_steps_for d s' c') \<le> 1"
  shows "length (active_steps_for d' s' c') \<le> 1"
proof -
  from assms(1) have none: "\<not> list_ex (\<lambda>r. SessionID r = s \<and> QrCode r = c \<and> QCStatus r = active)
      (QualityControlSteps d)"
    and rows: "QualityControlSteps d' =
      QualityControlSteps d @ [new_step (identity d + 1) s c scan (now e) p]"
    by (auto simp: sp_StartQCStep_def Let_def split: if_splits)
  show ?thesis
  proof (cases "s' = s \<and> c' = c")
    case True
    with none have "active_steps_for d s' c' = []"
      by (auto simp: active_steps_for_def list_ex_iff filter_empty_conv)
    with rows show ?thesis by (simp add: active_steps_for_def)
  next
    case False
    with rows have "active_steps_for d' s' c' = active_steps_for d s' c'"
      by (auto simp: active_steps_for_def new_step_def)
    with assms(2) show ?thesis by simp
  qed
qed

lemma sp_AbortActiveQCSteps_rejected:
  assumes "list_ex (\<lambda>r. SessionID r = s \<and> QCStatus r = active \<and> \<not> Completed r)
      (QualityControlSteps d)"
  shows "sp_AbortActiveQCSteps e d s reason = Inl CheckViolation"
proof -
  from assms obtain r where r: "r \<in> set (QualityControlSteps d)" "SessionID r = s"
      "QCStatus r = active" "\<not> Completed r"
    by (auto simp: list_ex_iff)
  then have "\<not> checks_hold (abort_update (now e) reason r)"
    by (simp add: ck_defs abort_update_def)
  with r have "\<not> list_all checks_hold (map (abort_update (now e) reason)
      (filter (\<lambda>r. SessionID r = s \<and> QCStatus r = active) (QualityControlSteps d)))"
    by (auto simp: list_all_iff)
  then show ?thesis by (simp add: sp_AbortActiveQCSteps_def Let_def)
qed

lemma queries_abortActiveStepsForSession_rejected:
  assumes "list_ex (\<lambda>r. SessionID r = s \<and> \<not> Completed r \<and> EndScanID r = None)
      (QualityControlSteps d)" "\<not> fails e Q_abortActiveSteps"
  shows "queries_abortActiveStepsForSession e d s = Inl CheckViolation"
proof -
  from assms obtain r where r: "r \<in> set (QualityControlSteps d)" "SessionID r = s"
      "\<not> Completed r" "EndScanID r = None"
    by (auto simp: list_ex_iff)
  then have "\<not> checks_hold (queries_abort_update (now e) r)"
    by (simp add: ck_defs queries_abort_update_def)
  with r have "\<not> list_all checks_hold (map (queries_abort_update (now e))
      (filter (\<lambda>r. SessionID r = s \<and> \<not> Completed r) (QualityControlSteps d)))"
    by (auto simp: list_all_iff)
  with assms(2) show ?thesis by (simp add: queries_abortActiveStepsForSession_def Let_def)
qed

lemma abortActiveStepsForSession_rejected:
  assumes "list_ex (\<lambda>r. SessionID r = s \<and> QCStatus r = active \<and> \<not> Completed r \<and>
      EndScanID r = None) (QualityControlSteps d)"
  shows "\<exists>x. abortActiveStepsForSession e d lg s reason = (Inl x, lg, d)"
proof (cases "hasStoredProcedure e d ''sp_AbortActiveQCSteps''")
  case True
  from assms have "list_ex (\<lambda>r. SessionID r = s \<and> QCStatus r = active \<and> \<not> Completed r)
      (QualityControlSteps d)" by (auto simp: list_ex_iff)
  from sp_AbortActiveQCSteps_rejected [OF this] True show ?thesis
    by (simp add: abortActiveStepsForSession_def)
next
  case False
  from assms have l: "list_ex (\<lambda>r. SessionID r = s \<and> \<not> Completed r \<and> EndScanID r = None)
      (QualityControlSteps d)" by (auto simp: list_ex_iff)
  show ?thesis
  proof (cases "fails e Q_abortActiveSteps")
    case True
    with False show ?thesis
      by (simp add: abortActiveStepsForSession_def queries_abortActiveStepsForSession_def)
  next
    case nf: False
    from queries_abortActiveStepsForSession_rejected [OF l nf] False show ?thesis
      by (simp add: abortActiveStepsForSession_def)
  qed
qed













lemma handleQRCodeDetected_cases:
  "handleQRCodeDetected t a q = (v, a') \<Longrightarrow>
   (v \<noteq> accepted \<and> a' = a) \<or>
   (v = accepted \<and>
    a' = a\<lparr>lastProcessedQR := Some q, lastProcessedTime := t,
           pendingScans := insert q (pendingScans a),
           recentlyScanned := (recentlyScanned a)(q := Some t)\<rparr>)"
  by (auto simp: handleQRCodeDetected_def split: if_splits)

lemma marked_step:
  assumes "marked a qrData cd t1 t2" "event_time_in t1 t2 ev" "t2 - t1 < cd" "cd \<le> 60000"
  shows "marked (app_step a ev) qrData cd t1 t2"
proof (cases ev)
  case (Detected t q)
  obtain v a' where h: "handleQRCodeDetected t a q = (v, a')"
    by (cases "handleQRCodeDetected t a q")
  from handleQRCodeDetected_cases [OF h] assms Detected h show ?thesis
    by (auto simp: marked_def split: option.splits if_splits)
next
  case (Settled q)
  with assms show ?thesis by (simp add: marked_def scan_settled_def)
next
  case (Selected s)
  with assms show ?thesis by (simp add: marked_def)
next
  case (Cleanup t)
  with assms show ?thesis
    by (auto simp: marked_def cleanupOldScans_def split: option.splits)
qed

lemma marked_run:
  assumes "marked a qrData cd t1 t2" "list_all (event_time_in t1 t2) events"
    "t2 - t1 < cd" "cd \<le> 60000"
  shows "marked (foldl app_step a events) qrData cd t1 t2"
  using assms
proof (induction events arbitrary: a)
  case Nil
  then show ?case by simp
next
  case (Cons ev events)
  from Cons.prems have "marked (app_step a ev) qrData cd t1 t2"
    by (auto intro: marked_step)
  with Cons show ?case by simp
qed

lemma marked_dropped:
  assumes "marked a qrData cd t1 t2" "selectedSession a \<noteq> None" "0 < t1" "t2 - t1 < cd"
  shows "handleQRCodeDetected t2 a qrData = (immediate_repeat, a) \<or>
     handleQRCodeDetected t2 a qrData = (cooldown, a)"
  using assms
  by (auto simp: marked_def handleQRCodeDetected_def split: option.splits)

lemma sp_StartQCStep_status_matches_flag:
  assumes "sp_StartQCStep e d s c scan p = Inr (rs, d')"
    "list_all status_matches_flag (QualityControlSteps d)"
  shows "list_all status_matches_flag (QualityControlSteps d')"
  using assms
  by (auto simp: sp_StartQCStep_def Let_def status_matches_flag_def new_step_def
      split: if_splits)

lemma sp_CompleteQCStep_status_matches_flag:
  assumes "sp_CompleteQCStep e d s c scan rating defects descr notes = Inr (rs, d')"
    "list_all status_matches_flag (QualityControlSteps d)"
  shows "list_all status_matches_flag (QualityControlSteps d')"
proof -
  from assms(1) obtain found where f: "top1 (order_by_StartTime_desc
             (filter (\<lambda>r. SessionID r = s \<and> QrCode r = c \<and> QCStatus r = active)
                (QualityControlSteps d))) = Some found"
    by (auto simp: sp_CompleteQCStep_def split: option.splits)
  with assms(1) have
    "QualityControlSteps d' = map (\<lambda>r. if ID r = ID found
                 then r\<lparr>EndScanID := scan, EndTime := Some (now e), Completed := True,
                        QCStatus := completed, QualityRating := rating,
                        DefectsFound := defects, DefectDescription := descr,
                        QualityNotes := notes, ReworkRequired := defects,
                        UpdatedTS := now e\<rparr>
                 else r) (QualityControlSteps d)"
    by (auto simp: sp_CompleteQCStep_def Let_def split: if_splits)
  with assms(2) show ?thesis
    by (auto simp: list_all_iff status_matches_flag_def)
qed

lemma sp_AbortActiveQCSteps_status_matches_flag:
  assumes "sp_AbortActiveQCSteps e d s reason = Inr (n, d')"
    "list_all status_matches_flag (QualityControlSteps d)"
  shows "list_all status_matches_flag (QualityControlSteps d')"
proof -
  let ?hit = "\<lambda>r. SessionID r = s \<and> QCStatus r = active"
  from assms(1) have ok: "list_all checks_hold
      (map (abort_update (now e) reason) (filter ?hit (QualityControlSteps d)))"
    and rows: "QualityControlSteps d' =
      map (\<lambda>r. if ?hit r then abort_update (now e) reason r else r) (QualityControlSteps d)"
    by (auto simp: sp_AbortActiveQCSteps_def Let_def split: if_splits)
  have "status_matches_flag (abort_update (now e) reason r)"
    if "r \<in> set (QualityControlSteps d)" "?hit r" for r
  proof -
    from ok that have "checks_hold (abort_update (now e) reason r)"
      by (auto simp: list_all_iff)
    then show ?thesis
      by (auto simp: ck_defs abort_update_def status_matches_flag_def split: if_splits)
  qed
  with assms(2) rows show ?thesis
    by (auto simp: list_all_iff)
qed

subsection \<open>Entry or exit\<close>



subsection \<open>The limit of parallel steps\<close>




text \<open>A cached step set can fall behind the table without any fault. After a restart of
  the process the first scan of the session completes one of ten active steps;
  \<^verbatim>\<open>updateActiveStepsCache\<close> then makes an empty set for the session and removes the id
  from it. Two entry scans later the table holds eleven steps that are not completed,
  against a limit of ten.\<close>

lemma stale_cache_admits_eleventh_step:
  "(case processQRScan (env_at 2000) default_config (db_ten_active procedures) new_logic 1
        ''CODE-01'' (Some 21) of
      (o1, lg1, d1) \<Rightarrow>
        (case processQRScan (env_at 3000) default_config d1 lg1 1 ''CODE-11'' (Some 22) of
          (o2, lg2, d2) \<Rightarrow>
            length (steps_not_completed d2 1) = 10 \<and>
            (case processQRScan (env_at 4000) default_config d2 lg2 1 ''CODE-12'' (Some 23) of
              (o3, lg3, d3) \<Rightarrow>
                map_sum id otype o3 = Inr entrance_started \<and>
                length (steps_not_completed d3 1) = 11)))"
  by (simp add: run_defs db_ten_active_def steps_not_completed_def)

subsection \<open>A failed read of the active steps\<close>



subsection \<open>Outcomes instead of exceptions\<close>




subsection \<open>One active step per session and code\<close>

text \<open>
  Claim C1 does not hold of the code. \<^verbatim>\<open>sp_StartQCStep\<close> inserts only when no active
  step of the session and code exists (lemma \<open>sp_StartQCStep_keeps_one_active\<close>), but the
  direct INSERT that \<^verbatim>\<open>startQCStep\<close> falls back on when the procedure is not found has no
  such test: started for a session and code that have an active step, it adds a second.
\<close>

theorem direct_insert_duplicates_active_step:
  "\<not> hasStoredProcedure (env_at 9000) (db_one_active []) ''sp_StartQCStep'' \<and>
   length (active_steps_for (db_one_active []) 1 ''X1-0001'') = 1 \<and>
   (case startQCStep (env_at 9000) default_config (db_one_active []) 1 ''X1-0001'' (Some 8) of
      Inl x \<Rightarrow> False
    | Inr (r, d') \<Rightarrow> length (active_steps_for d' 1 ''X1-0001'') = 2)"
  by (simp add: hasStoredProcedure_def startQCStep_def queries_startQCStep_def env_at_def
      db_one_active_def active_steps_for_def new_step_def ck_defs Let_def top1_def)

subsection \<open>Aborting the active steps of a session\<close>

text \<open>
  Claim C3 does not hold of the code. For a session with one active step,
  \<^verbatim>\<open>abortActiveStepsForSession\<close> throws on both paths and leaves the step as it was: the
  UPDATE of the procedure sets an end time on a row that is not marked completed, the
  UPDATE of the query class marks a row completed that has no end scan, and either row
  breaks \<^verbatim>\<open>CK_QualityControlSteps_Completed\<close>. Apart from that, the row the query class
  would write is marked completed, keeps the status active and carries no reason.
\<close>

theorem abortActiveStepsForSession_raises_on_active_step:
  "abortActiveStepsForSession (env_at 5000) (db_one_active procedures) new_logic 1
       ''Session beendet'' = (Inl CheckViolation, new_logic, db_one_active procedures) \<and>
   abortActiveStepsForSession (env_at 5000) (db_one_active []) new_logic 1
       ''Session beendet'' = (Inl CheckViolation, new_logic, db_one_active []) \<and>
   QCStatus (abort_update 5000 ''Session beendet'' (new_step 1 1 ''X1-0001'' (Some 7) 1000 1))
     = aborted \<and>
   CK_QualityControlSteps_Completed
     (abort_update 5000 ''Session beendet'' (new_step 1 1 ''X1-0001'' (Some 7) 1000 1))
     = False \<and>
   Completed (queries_abort_update 5000 (new_step 1 1 ''X1-0001'' (Some 7) 1000 1)) = True \<and>
   QCStatus (queries_abort_update 5000 (new_step 1 1 ''X1-0001'' (Some 7) 1000 1)) = active \<and>
   QualityNotes (queries_abort_update 5000 (new_step 1 1 ''X1-0001'' (Some 7) 1000 1)) = None \<and>
   CK_QualityControlSteps_Completed
     (queries_abort_update 5000 (new_step 1 1 ''X1-0001'' (Some 7) 1000 1)) = False"
  by (simp add: abortActiveStepsForSession_def hasStoredProcedure_def env_at_def procedures_def
      db_one_active_def sp_AbortActiveQCSteps_def abort_update_def new_step_def ck_defs
      queries_abortActiveStepsForSession_def queries_abort_update_def)

text \<open>
  Claim C2 does not hold of the code. With one active step for the code, the restart of
  the session answers \<^verbatim>\<open>false\<close> and leaves the table as it was, since the abort throws;
  the next scan of the code finds the step active and completes it.
\<close>

theorem restart_leaves_step_active_and_scan_exits:
  "(case session_restart True (env_at 5000) (db_one_active procedures) new_logic 1 of
      (ok, lg1, d1) \<Rightarrow>
        ok = False \<and> d1 = db_one_active procedures \<and>
        (case processQRScan (env_at 9000) default_config d1 lg1 1 ''X1-0001'' (Some 8) of
           (out, lg2, d2) \<Rightarrow> map_sum id otype out = Inr exit_completed)) \<and>
   (case session_restart True (env_at 5000) (db_one_active []) new_logic 1 of
      (ok, lg1, d1) \<Rightarrow>
        ok = False \<and> d1 = db_one_active [] \<and>
        (case processQRScan (env_at 9000) default_config d1 lg1 1 ''X1-0001'' (Some 8) of
           (out, lg2, d2) \<Rightarrow> map_sum id otype out = Inr exit_completed))"
  by (simp add: session_restart_def abortActiveStepsForSession_def sp_AbortActiveQCSteps_def
      abort_update_def queries_abortActiveStepsForSession_def queries_abort_update_def
      run_defs db_one_active_def)

text \<open>Were the rows written as the two UPDATE statements set them, the next scan of the
  code would still be no fresh entry. The row of the procedure is not marked completed,
  so the scan takes the exit path, where \<^verbatim>\<open>sp_CompleteQCStep\<close> finds no active step. The
  row of the query class is marked completed and was started today.\<close>

lemma written_by_abort_procedure_takes_exit_path:
  "(case processQRScan (env_at 9000) default_config
      (db_of_rows [abort_update 5000 ''Session beendet''
         (new_step 1 1 ''X1-0001'' (Some 7) 1000 1)] procedures)
      new_logic 1 ''X1-0001'' (Some 8) of
    (out, lg2, d2) \<Rightarrow> map_sum id otype out = Inr exit_error)"
  by (simp add: run_defs db_of_rows_def abort_update_def append_note_def)

lemma written_by_abort_query_is_already_completed:
  "(case processQRScan (env_at 9000) default_config
      (db_of_rows [queries_abort_update 5000 (new_step 1 1 ''X1-0001'' (Some 7) 1000 1)] [])
      new_logic 1 ''X1-0001'' (Some 8) of
    (out, lg2, d2) \<Rightarrow> map_sum id otype out = Inr already_completed)"
  by (simp add: run_defs db_of_rows_def queries_abort_update_def)

subsection \<open>Malformed codes\<close>

text \<open>
  Claim C9 does not hold of the code. \<^verbatim>\<open>validateQRCode\<close> rejects a code of two
  characters and a code with characters outside its class, but \<^verbatim>\<open>processQRScan\<close> never
  calls it: a scan of either code starts a step.
\<close>

theorem malformed_code_starts_step:
  "isValid (validateQRCode ''ab'') = False \<and>
   (case processQRScan (env_at 9000) default_config (db_empty procedures) new_logic 1 ''ab''
        (Some 8) of
      (out, lg', d') \<Rightarrow>
        map_sum id otype out = Inr entrance_started \<and>
        map QrCode (QualityControlSteps d') = [''ab'']) \<and>
   isValid (validateQRCode ''<script>'') = False \<and>
   (case processQRScan (env_at 9000) default_config (db_empty []) new_logic 1 ''<script>''
        (Some 8) of
      (out, lg', d') \<Rightarrow>
        map_sum id otype out = Inr entrance_started \<and>
        map QrCode (QualityControlSteps d') = [''<script>''])"
  by (simp add: run_defs db_empty_def validateQRCode_def trim_def is_space_def allowed_char_def)

subsection \<open>Duplicate suppression\<close>

text \<open>
  Claim C6. Let a scan of a code be accepted at a time \<open>t1 > 0\<close>, and let the same code
  be scanned again at \<open>t2\<close>, less than \<^verbatim>\<open>scanCooldown\<close> later, with a session selected.
  Whatever happened to the renderer in between (scans of any code, pending scans
  ending, another session being selected, cleanups, all at clock readings from \<open>t1\<close> to
  \<open>t2\<close>), the second scan is dropped by the immediate-repeat test or by the cooldown
  test: the renderer is left as it was and the scan is not passed on to be saved. The
  tests apply in the order immediate repeat, cooldown, in-flight, and their verdict
  does not depend on which session is selected.
\<close>

theorem second_scan_of_code_is_dropped:
  "(handleQRCodeDetected t1 a qrData = (accepted, a1) \<and> 0 < t1 \<and> t1 \<le> t2 \<and>
      t2 - t1 < scanCooldown a \<and> scanCooldown a \<le> 60000 \<and>
      list_all (event_time_in t1 t2) events \<and>
      selectedSession (foldl app_step a1 events) \<noteq> None \<longrightarrow>
      handleQRCodeDetected t2 (foldl app_step a1 events) qrData =
        (immediate_repeat, foldl app_step a1 events) \<or>
      handleQRCodeDetected t2 (foldl app_step a1 events) qrData =
        (cooldown, foldl app_step a1 events)) \<and>
   (selectedSession a \<noteq> None \<and> lastProcessedQR a = Some qrData \<and>
      t - lastProcessedTime a < 2000 \<longrightarrow>
      handleQRCodeDetected t a qrData = (immediate_repeat, a)) \<and>
   (selectedSession a \<noteq> None \<and>
      \<not> (lastProcessedQR a = Some qrData \<and> t - lastProcessedTime a < 2000) \<and>
      (\<exists>ts. recentlyScanned a qrData = Some ts \<and> ts \<noteq> 0 \<and> t - ts < scanCooldown a) \<longrightarrow>
      handleQRCodeDetected t a qrData = (cooldown, a)) \<and>
   (selectedSession a \<noteq> None \<and>
      \<not> (lastProcessedQR a = Some qrData \<and> t - lastProcessedTime a < 2000) \<and>
      \<not> (\<exists>ts. recentlyScanned a qrData = Some ts \<and> ts \<noteq> 0 \<and> t - ts < scanCooldown a) \<and>
      qrData \<in> pendingScans a \<longrightarrow>
      handleQRCodeDetected t a qrData = (in_flight, a)) \<and>
   (\<forall>s s'. fst (handleQRCodeDetected t (a\<lparr>selectedSession := Some s\<rparr>) qrData) =
      fst (handleQRCodeDetected t (a\<lparr>selectedSession := Some s'\<rparr>) qrData))"
proof (intro conjI impI allI)
  assume h: "handleQRCodeDetected t1 a qrData = (accepted, a1) \<and> 0 < t1 \<and> t1 \<le> t2 \<and>
      t2 - t1 < scanCooldown a \<and> scanCooldown a \<le> 60000 \<and>
      list_all (event_time_in t1 t2) events \<and>
      selectedSession (foldl app_step a1 events) \<noteq> None"
  then have "a1 = a\<lparr>lastProcessedQR := Some qrData, lastProcessedTime := t1,
           pendingScans := insert qrData (pendingScans a),
           recentlyScanned := (recentlyScanned a)(qrData := Some t1)\<rparr>"
    using handleQRCodeDetected_cases by blast
  with h have "marked a1 qrData (scanCooldown a) t1 t2"
    by (simp add: marked_def)
  with h have m: "marked (foldl app_step a1 events) qrData (scanCooldown a) t1 t2"
    by (auto intro: marked_run)
  from h have s: "selectedSession (foldl app_step a1 events) \<noteq> None" and p: "0 < t1"
    and c: "t2 - t1 < scanCooldown a" by simp_all
  show "handleQRCodeDetected t2 (foldl app_step a1 events) qrData =
        (immediate_repeat, foldl app_step a1 events) \<or>
      handleQRCodeDetected t2 (foldl app_step a1 events) qrData =
        (cooldown, foldl app_step a1 events)"
    by (rule marked_dropped [OF m s p c])
next
  assume "selectedSession a \<noteq> None \<and> lastProcessedQR a = Some qrData \<and>
      t - lastProcessedTime a < 2000"
  then show "handleQRCodeDetected t a qrData = (immediate_repeat, a)"
    by (simp add: handleQRCodeDetected_def)
next
  assume "selectedSession a \<noteq> None \<and>
      \<not> (lastProcessedQR a = Some qrData \<and> t - lastProcessedTime a < 2000) \<and>
      (\<exists>ts. recentlyScanned a qrData = Some ts \<and> ts \<noteq> 0 \<and> t - ts < scanCooldown a)"
  then show "handleQRCodeDetected t a qrData = (cooldown, a)"
    by (auto simp: handleQRCodeDetected_def)
next
  assume "selectedSession a \<noteq> None \<and>
      \<not> (lastProcessedQR a = Some qrData \<and> t - lastProcessedTime a < 2000) \<and>
      \<not> (\<exists>ts. recentlyScanned a qrData = Some ts \<and> ts \<noteq> 0 \<and> t - ts < scanCooldown a) \<and>
      qrData \<in> pendingScans a"
  then show "handleQRCodeDetected t a qrData = (in_flight, a)"
    by (auto simp: handleQRCodeDetected_def split: option.splits)
next
  fix s s'
  show "fst (handleQRCodeDetected t (a\<lparr>selectedSession := Some s\<rparr>) qrData) =
      fst (handleQRCodeDetected t (a\<lparr>selectedSession := Some s'\<rparr>) qrData)"
    by (auto simp: handleQRCodeDetected_def split: option.splits)
qed

theorem second_scan_of_code_is_dropped_witness:
  "handleQRCodeDetected 1000 app_selected ''ABC123'' = (accepted, app_after_first) \<and>
   list_all (event_time_in 1000 1500) events_between \<and>
   selectedSession (foldl app_step app_after_first events_between) = Some 2 \<and>
   1500 - 1000 < scanCooldown app_selected \<and>
   (handleQRCodeDetected 1500 (foldl app_step app_after_first events_between) ''ABC123'' =
      (immediate_repeat, foldl app_step app_after_first events_between) \<or>
    handleQRCodeDetected 1500 (foldl app_step app_after_first events_between) ''ABC123'' =
      (cooldown, foldl app_step app_after_first events_between))"
proof -
  have f: "handleQRCodeDetected 1000 app_selected ''ABC123'' = (accepted, app_after_first)"
    by (simp add: app_after_first_def handleQRCodeDetected_def app_selected_def new_app_def)
  have e: "list_all (event_time_in 1000 1500) events_between"
    by (simp add: events_between_def)
  have s: "selectedSession (foldl app_step app_after_first events_between) = Some 2"
    by (simp add: events_between_def app_after_first_def handleQRCodeDetected_def
        app_selected_def new_app_def scan_settled_def cleanupOldScans_def)
  have c: "scanCooldown app_selected = 3000"
    by (simp add: app_selected_def new_app_def)
  note th = second_scan_of_code_is_dropped [where ?t1.0 = 1000 and a = app_selected
      and qrData = "''ABC123''" and ?a1.0 = app_after_first and ?t2.0 = 1500
      and events = events_between]
  note imp = th [THEN conjunct1]
  have h: "handleQRCodeDetected 1000 app_selected ''ABC123'' =
        (accepted, app_after_first) \<and> (0::int) < 1000 \<and> (1000::int) \<le> 1500 \<and>
      1500 - 1000 < scanCooldown app_selected \<and> scanCooldown app_selected \<le> 60000 \<and>
      list_all (event_time_in 1000 1500) events_between \<and>
      selectedSession (foldl app_step app_after_first events_between) \<noteq> None"
    using f e s c by simp
  from imp h have "handleQRCodeDetected 1500 (foldl app_step app_after_first events_between)
        ''ABC123'' = (immediate_repeat, foldl app_step app_after_first events_between) \<or>
      handleQRCodeDetected 1500 (foldl app_step app_after_first events_between) ''ABC123'' =
        (cooldown, foldl app_step app_after_first events_between)"
    by (rule mp)
  with f e s c show ?thesis by simp
qed

subsection \<open>Rate limiting\<close>




end
